theory Spec2Isabelle
  imports Complex_Main "HOL-Library.Monad_Syntax" "HOL-Library.Multiset"
begin

section \<open>Popularity aggregation (scripts/03_update_popularity_scores.py)\<close>

text \<open>
  The script holds one SQL statement that recomputes the \<open>popularity_score\<close> column of the
  \<open>items\<close> table from the \<open>interactions\<close> table, followed by a query that prints the ten best
  items. The two tables are modelled as lists of rows, with the columns the script reads.
  SQL numbers are modelled as rationals: a NUMERIC column holds decimals, and dividing a
  decimal by \<open>100.0\<close> is exact. A nullable column is an \<open>option\<close>, \<open>None\<close> standing for NULL.
\<close>

subsection \<open>The weight table\<close>


subsection \<open>Tables\<close>

record item =
  item_id :: int
  item_code :: string
  name :: string
  popularity_score :: "rat option"

record interaction =
  int_item_id :: int
  interaction_type :: string
  interaction_value :: "rat option"

record database =
  items :: "item list"
  interactions :: "interaction list"

subsection \<open>The UPDATE statement (lines 29 to 45)\<close>

text \<open>\<open>SUM\<close> skips NULL values and is NULL when no value is left.\<close>

fun non_null :: "'a option list \<Rightarrow> 'a list" where
  "non_null [] = []"
| "non_null (None # vs) = non_null vs"
| "non_null (Some v # vs) = v # non_null vs"

definition sql_sum :: "rat option list \<Rightarrow> rat option" where
  "sql_sum vs = (case non_null vs of [] \<Rightarrow> None | w # ws \<Rightarrow> Some (sum_list (w # ws)))"

definition coalesce :: "'a option \<Rightarrow> 'a \<Rightarrow> 'a" where
  "coalesce v d = (case v of None \<Rightarrow> d | Some x \<Rightarrow> x)"

text \<open>
  The common table expression \<open>interaction_scores\<close>: one row
  \<open>(item_id, total_score, interaction_count)\<close> for each \<open>item_id\<close> that occurs in
  \<open>interactions\<close>.
\<close>

definition group_rows :: "interaction list \<Rightarrow> int \<Rightarrow> interaction list" where
  "group_rows ints i = filter (\<lambda>r. int_item_id r = i) ints"

definition score_row :: "interaction list \<Rightarrow> int \<Rightarrow> int \<times> rat option \<times> nat" where
  "score_row ints i =
     (i, sql_sum (map interaction_value (group_rows ints i)), length (group_rows ints i))"

definition interaction_scores :: "interaction list \<Rightarrow> (int \<times> rat option \<times> nat) list" where
  "interaction_scores ints = map (score_row ints) (remdups (map int_item_id ints))"

text \<open>The expression \<open>LEAST(COALESCE(total_score, 0) / 100.0, 1.0)\<close> of lines 39 to 42.\<close>

definition normalized :: "rat option \<Rightarrow> rat" where
  "normalized total_score = min (coalesce total_score 0 / 100) 1"

text \<open>
  \<open>UPDATE items SET ... FROM interaction_scores WHERE items.item_id =
  interaction_scores.item_id\<close>: a row of \<open>items\<close> is rewritten when a row of
  \<open>interaction_scores\<close> joins with it, and is left as it is otherwise.
\<close>

definition update_item :: "(int \<times> rat option \<times> nat) list \<Rightarrow> item \<Rightarrow> item" where
  "update_item scores it =
     (case find (\<lambda>s. fst s = item_id it) scores of
        None \<Rightarrow> it
      | Some (i, total_score, n) \<Rightarrow> it\<lparr>popularity_score := Some (normalized total_score)\<rparr>)"

definition joins :: "(int \<times> rat option \<times> nat) list \<Rightarrow> item \<Rightarrow> bool" where
  "joins scores it = (find (\<lambda>s. fst s = item_id it) scores \<noteq> None)"

definition execute_update :: "database \<Rightarrow> database" where
  "execute_update db =
     db\<lparr>items := map (update_item (interaction_scores (interactions db))) (items db)\<rparr>"

text \<open>The number in the command tag \<open>UPDATE n\<close> that \<open>conn.execute\<close> returns.\<close>

definition rows_updated :: "database \<Rightarrow> nat" where
  "rows_updated db = length (filter (joins (interaction_scores (interactions db))) (items db))"

text \<open>Reading the tables: the raw score of an item and its persisted score.\<close>

definition raw_score :: "interaction list \<Rightarrow> int \<Rightarrow> rat option option" where
  "raw_score ints i =
     map_option (\<lambda>s. fst (snd s)) (find (\<lambda>s. fst s = i) (interaction_scores ints))"

definition persisted_score :: "database \<Rightarrow> int \<Rightarrow> rat option option" where
  "persisted_score db i = map_option popularity_score (find (\<lambda>it. item_id it = i) (items db))"

subsection \<open>The leaderboard query (lines 51 to 56)\<close>

text \<open>
  \<open>ORDER BY popularity_score DESC LIMIT 10\<close>. In a descending order PostgreSQL places
  NULL before every number. SQL leaves the order of rows with equal scores open; the model
  sorts by insertion, which keeps such rows in table order, and the theorems below speak
  only of what holds for every order of ties.
\<close>

fun score_ge :: "rat option \<Rightarrow> rat option \<Rightarrow> bool" where
  "score_ge None b = True"
| "score_ge (Some x) None = False"
| "score_ge (Some x) (Some y) = (y \<le> x)"

definition before :: "item \<Rightarrow> item \<Rightarrow> bool" where
  "before a b = score_ge (popularity_score a) (popularity_score b)"

fun insert_desc :: "item \<Rightarrow> item list \<Rightarrow> item list" where
  "insert_desc x [] = [x]"
| "insert_desc x (y # ys) = (if before x y then x # y # ys else y # insert_desc x ys)"

definition order_by_popularity_desc :: "item list \<Rightarrow> item list" where
  "order_by_popularity_desc its = foldr insert_desc its []"

definition top_items :: "database \<Rightarrow> item list" where
  "top_items db = take 10 (order_by_popularity_desc (items db))"

subsection \<open>The run (lines 18 to 63)\<close>

text \<open>
  What the run prints. The line of an item carries its code, its name and its score; the
  rounding to three decimals of the format \<open>:.3f\<close> is not modelled.
\<close>

datatype out_line = Updated nat | Top_header | Item_line string string rat

datatype error = ConnectError | ExecuteError | FetchError | TypeError

text \<open>
  The loop of lines 59 and 60. Formatting \<open>None\<close> with \<open>:.3f\<close> raises \<open>TypeError\<close>, which
  ends the loop.
\<close>

definition format_item :: "item \<Rightarrow> out_line option" where
  "format_item it =
     (case popularity_score it of
        None \<Rightarrow> None
      | Some s \<Rightarrow> Some (Item_line (item_code it) (name it) s))"

fun print_items :: "item list \<Rightarrow> out_line list \<times> error option" where
  "print_items [] = ([], None)"
| "print_items (it # rest) =
     (case format_item it of
        None \<Rightarrow> ([], Some TypeError)
      | Some l \<Rightarrow> (case print_items rest of (ls, e) \<Rightarrow> (l # ls, e)))"

text \<open>
  The three awaited calls on the connection can raise. Which one does, if any, is an input
  of the model. The script opens no transaction, so each statement is committed on its
  own: a statement that raises changes nothing (PostgreSQL executes one statement
  atomically), and a statement that returned stays committed whatever happens later.
  The \<open>finally\<close> block closes the connection once it has been opened.
\<close>

datatype fault = No_fault | Connect_fails | Execute_fails | Fetch_fails

datatype db_call = Connect | Execute | Fetch | Close

record run =
  raised :: "error option"
  db_after :: database
  printed :: "out_line list"
  db_calls :: "db_call list"

definition update_popularity_scores :: "fault \<Rightarrow> database \<Rightarrow> run" where
  "update_popularity_scores f db =
     (if f = Connect_fails then
        \<lparr>raised = Some ConnectError, db_after = db, printed = [], db_calls = [Connect]\<rparr>
      else if f = Execute_fails then
        \<lparr>raised = Some ExecuteError, db_after = db, printed = [],
         db_calls = [Connect, Execute, Close]\<rparr>
      else
        let db' = execute_update db;
            result = rows_updated db
        in if f = Fetch_fails then
             \<lparr>raised = Some FetchError, db_after = db', printed = [Updated result],
              db_calls = [Connect, Execute, Fetch, Close]\<rparr>
           else
             (case print_items (top_items db') of
                (ls, e) \<Rightarrow>
                  \<lparr>raised = e, db_after = db',
                   printed = Updated result # Top_header # ls,
                   db_calls = [Connect, Execute, Fetch, Close]\<rparr>))"

section \<open>Configuration (app/config.py)\<close>

subsection \<open>The settings class\<close>












subsection \<open>The cached accessor (lines 39 to 42)\<close>





section \<open>The weighted sum of the specification\<close>




section \<open>Example data\<close>

definition mk_item :: "int \<Rightarrow> string \<Rightarrow> rat option \<Rightarrow> item" where
  "mk_item i c s = \<lparr>item_id = i, item_code = c, name = c, popularity_score = s\<rparr>"

definition mk_interaction :: "int \<Rightarrow> string \<Rightarrow> rat option \<Rightarrow> interaction" where
  "mk_interaction i t v = \<lparr>int_item_id = i, interaction_type = t, interaction_value = v\<rparr>"

text \<open>
  The scenario of the specification: item X, number 1, with three views, one click and one
  purchase, each stored with the weight of its type.
\<close>

definition scenario_X :: database where
  "scenario_X =
     \<lparr>items = [mk_item 1 ''X'' (Some 0)],
      interactions =
        [mk_interaction 1 ''view'' (Some 1), mk_interaction 1 ''view'' (Some 1),
         mk_interaction 1 ''view'' (Some 1), mk_interaction 1 ''click'' (Some 2),
         mk_interaction 1 ''purchase'' (Some 3)]\<rparr>"

text \<open>Item 1 has no interaction and an earlier score of one half; item 2 has one view.\<close>

definition stale_db :: database where
  "stale_db =
     \<lparr>items = [mk_item 1 ''A'' (Some (1 / 2)), mk_item 2 ''B'' (Some 0)],
      interactions = [mk_interaction 2 ''view'' (Some 1)]\<rparr>"


definition negative_db :: database where
  "negative_db =
     \<lparr>items = [mk_item 1 ''A'' (Some 0)],
      interactions = [mk_interaction 1 ''view'' (Some (- 5))]\<rparr>"

text \<open>Two items, with a stored value of 40 for item 1 and of 150 for item 2.\<close>

definition two_items_db :: database where
  "two_items_db =
     \<lparr>items = [mk_item 1 ''A'' (Some 0), mk_item 2 ''B'' (Some 0)],
      interactions =
        [mk_interaction 1 ''purchase'' (Some 40), mk_interaction 2 ''purchase'' (Some 150)]\<rparr>"


section \<open>Properties of the UPDATE statement\<close>

lemma find_score_row:
  "find (\<lambda>s. fst s = i) (map (score_row ints) ks) =
     (if i \<in> set ks then Some (score_row ints i) else None)"
  by (induction ks) (auto simp: score_row_def)

lemma find_interaction_scores:
  "find (\<lambda>s. fst s = i) (interaction_scores ints) =
     (if i \<in> int_item_id ` set ints then Some (score_row ints i) else None)"
  by (simp add: interaction_scores_def find_score_row)


lemma update_item_eq:
  "update_item (interaction_scores ints) it =
     (if item_id it \<in> int_item_id ` set ints
      then it\<lparr>popularity_score :=
                Some (normalized (sql_sum (map interaction_value (group_rows ints (item_id it)))))\<rparr>
      else it)"
  by (simp add: update_item_def find_interaction_scores score_row_def)

lemma item_id_update_item: "item_id (update_item scores it) = item_id it"
  by (simp add: update_item_def split: option.splits prod.splits)

lemma update_item_idem: "update_item scores (update_item scores it) = update_item scores it"
  by (simp add: update_item_def split: option.splits prod.splits)

lemma find_map_update_item:
  "find (\<lambda>it. item_id it = i) (map (update_item scores) its) =
     map_option (update_item scores) (find (\<lambda>it. item_id it = i) its)"
  by (induction its) (simp_all add: item_id_update_item)

lemma execute_update_idem: "execute_update (execute_update db) = execute_update db"
  by (simp add: execute_update_def update_item_idem)

lemma interactions_execute_update: "interactions (execute_update db) = interactions db"
  by (simp add: execute_update_def)

lemma persisted_score_execute_update:
  "persisted_score (execute_update db) i =
     (case find (\<lambda>it. item_id it = i) (items db) of
        None \<Rightarrow> None
      | Some it \<Rightarrow>
          Some (if i \<in> int_item_id ` set (interactions db)
                then Some (normalized (sql_sum (map interaction_value
                              (group_rows (interactions db) i))))
                else popularity_score it))"
proof (cases "find (\<lambda>it. item_id it = i) (items db)")
  case None
  then show ?thesis
    by (simp add: persisted_score_def execute_update_def find_map_update_item)
next
  case (Some it)
  then have "item_id it = i"
    by (auto simp: find_Some_iff)
  with Some show ?thesis
    by (simp add: persisted_score_def execute_update_def find_map_update_item update_item_eq)
qed

lemma item_without_interactions_keeps_score:
  assumes "i \<notin> int_item_id ` set (interactions db)"
  shows "persisted_score (execute_update db) i = persisted_score db i"
  using assms unfolding persisted_score_execute_update
  by (simp add: persisted_score_def split: option.splits)

lemma db_after_run:
  "db_after (update_popularity_scores f db) =
     (if f = Connect_fails \<or> f = Execute_fails then db else execute_update db)"
  by (simp add: update_popularity_scores_def Let_def split: prod.splits)

lemma normalized_Some: "normalized (Some r) = min (r / 100) 1"
  by (simp add: normalized_def coalesce_def)

lemma normalized_le_1: "normalized t \<le> 1"
  by (simp add: normalized_def)

lemma sum_list_nonneg_rat: "\<forall>v\<in>set vs. (0::rat) \<le> v \<Longrightarrow> 0 \<le> sum_list vs"
  by (induction vs) auto

lemma set_non_null: "set (non_null vs) = {v. Some v \<in> set vs}"
  by (induction vs rule: non_null.induct) auto

lemma coalesce_sql_sum: "coalesce (sql_sum vs) 0 = sum_list (non_null vs)"
  by (simp add: sql_sum_def coalesce_def split: list.splits)

lemma normalized_nonneg:
  assumes "\<forall>v. Some v \<in> set vs \<longrightarrow> 0 \<le> v"
  shows "0 \<le> normalized (sql_sum vs)"
proof -
  have "0 \<le> sum_list (non_null vs)"
    using assms by (intro sum_list_nonneg_rat) (simp add: set_non_null)
  then show ?thesis
    by (simp add: normalized_def coalesce_sql_sum)
qed

lemmas run_eval = persisted_score_def update_popularity_scores_def execute_update_def
  update_item_def normalized_def coalesce_def interaction_scores_def score_row_def
  group_rows_def sql_sum_def mk_item_def mk_interaction_def raw_score_def rows_updated_def
  joins_def top_items_def order_by_popularity_desc_def before_def format_item_def Let_def



section \<open>Properties of the leaderboard and of the run\<close>














subsection \<open>The report\<close>


lemma print_items_error: "snd (print_items its) = None \<or> snd (print_items its) = Some TypeError"
  by (induction its) (auto split: option.splits prod.splits)



lemma raised_run:
  "raised (update_popularity_scores f db) =
     (if f = Connect_fails then Some ConnectError
      else if f = Execute_fails then Some ExecuteError
      else if f = Fetch_fails then Some FetchError
      else snd (print_items (top_items (execute_update db))))"
  by (simp add: update_popularity_scores_def Let_def split: prod.splits)

lemma db_calls_run:
  "db_calls (update_popularity_scores f db) =
     (if f = Connect_fails then [Connect]
      else if f = Execute_fails then [Connect, Execute, Close]
      else [Connect, Execute, Fetch, Close])"
  by (simp add: update_popularity_scores_def Let_def split: prod.splits)

lemma printed_run_early:
  "f = Connect_fails \<or> f = Execute_fails \<Longrightarrow> printed (update_popularity_scores f db) = []"
  by (auto simp: update_popularity_scores_def)

section \<open>Properties of the settings\<close>












section \<open>Scores of the items\<close>

text \<open>
  Claim C1 says that after a run every item without interaction records has the score 0.0,
  not NULL and not its earlier value. The statement joins \<open>items\<close> with
  \<open>interaction_scores\<close>, which has no row for such an item, so the item is not rewritten.
  In \<open>stale_db\<close> item 1 has no interaction and the score one half; the run returns normally
  and the score is still one half.
\<close>

theorem zero_interaction_item_keeps_previous_score:
  "raised (update_popularity_scores No_fault stale_db) = None \<and>
   raw_score (interactions stale_db) 1 = None \<and>
   persisted_score stale_db 1 = Some (Some (1 / 2)) \<and>
   persisted_score (db_after (update_popularity_scores No_fault stale_db)) 1 = Some (Some (1 / 2))"
  by (simp add: run_eval stale_db_def)






text \<open>
  The statement bounds the score from above only. An interaction stored with the value -5
  gives its item the score -0.05.
\<close>

theorem negative_value_gives_negative_score:
  "persisted_score (db_after (update_popularity_scores No_fault negative_db)) 1 =
     Some (Some (- (1 / 20))) \<and> \<not> (0::rat) \<le> - (1 / 20)"
  by (simp add: run_eval negative_db_def)

text \<open>
  Claim C4, amended: after a run, every item of the table with at least one interaction
  record has a score that is not NULL and is at most 1.0, for arbitrary stored values; the
  score is at least 0.0 when none of the stored values of the item is negative.
\<close>

theorem persisted_score_bounds:
  assumes "find (\<lambda>it. item_id it = i) (items db) \<noteq> None"
    and "i \<in> int_item_id ` set (interactions db)"
  shows "\<exists>s. persisted_score (db_after (update_popularity_scores No_fault db)) i = Some (Some s) \<and>
             s \<le> 1 \<and>
             ((\<forall>r\<in>set (group_rows (interactions db) i).
                 \<forall>v. interaction_value r = Some v \<longrightarrow> 0 \<le> v) \<longrightarrow> 0 \<le> s)"
proof -
  let ?vs = "map interaction_value (group_rows (interactions db) i)"
  have p: "persisted_score (db_after (update_popularity_scores No_fault db)) i =
             Some (Some (normalized (sql_sum ?vs)))"
    using assms by (auto simp: db_after_run persisted_score_execute_update)
  have "0 \<le> normalized (sql_sum ?vs)"
    if "\<forall>r\<in>set (group_rows (interactions db) i). \<forall>v. interaction_value r = Some v \<longrightarrow> 0 \<le> v"
    using that by (intro normalized_nonneg) auto
  with p normalized_le_1 show ?thesis by blast
qed

theorem persisted_score_bounds_witness:
  "\<exists>s. persisted_score (db_after (update_popularity_scores No_fault two_items_db)) 1 = Some (Some s)
       \<and> s \<le> 1 \<and> 0 \<le> s"
proof -
  have ex: "find (\<lambda>it. item_id it = 1) (items two_items_db) \<noteq> None"
    by (simp add: two_items_db_def mk_item_def)
  have mem: "1 \<in> int_item_id ` set (interactions two_items_db)"
    by (simp add: two_items_db_def mk_interaction_def)
  have nn: "\<forall>r\<in>set (group_rows (interactions two_items_db) 1).
              \<forall>v. interaction_value r = Some v \<longrightarrow> 0 \<le> v"
    by (simp add: two_items_db_def mk_interaction_def group_rows_def)
  from persisted_score_bounds [OF ex mem] nn show ?thesis by blast
qed

section \<open>Failure and repetition\<close>

text \<open>
  The UPDATE is committed when it returns. When the leaderboard query that follows it
  raises, the run fails and the new scores are in the table: in the scenario of item X the
  score was 0 before the failed run and is 0.08 after it.
\<close>

theorem failed_report_leaves_new_scores:
  "raised (update_popularity_scores Fetch_fails scenario_X) = Some FetchError \<and>
   persisted_score scenario_X 1 = Some (Some 0) \<and>
   persisted_score (db_after (update_popularity_scores Fetch_fails scenario_X)) 1 =
     Some (Some (8 / 100))"
  by (simp add: run_eval scenario_X_def)

text \<open>
  Claim C5, amended: when a run fails because the connection cannot be opened or because
  the UPDATE raises, the persisted scores are exactly those before the run and nothing has
  been printed; when it fails later, in the leaderboard query or in formatting a NULL
  score, the table holds the recomputed scores. In every run each database call is made
  at most once: there is no retry.
\<close>

theorem failed_run_before_write_keeps_scores:
  assumes "r = update_popularity_scores f db"
  shows "(f = Connect_fails \<longrightarrow> raised r = Some ConnectError) \<and>
         (f = Execute_fails \<longrightarrow> raised r = Some ExecuteError) \<and>
         (f = Fetch_fails \<longrightarrow> raised r = Some FetchError) \<and>
         (raised r = Some ConnectError \<or> raised r = Some ExecuteError \<longrightarrow>
            db_after r = db \<and> printed r = []) \<and>
         (raised r = Some FetchError \<or> raised r = Some TypeError \<longrightarrow>
            db_after r = execute_update db) \<and>
         distinct (db_calls r)"
proof -
  have pe: "snd (print_items (top_items (execute_update db))) = None \<or>
            snd (print_items (top_items (execute_update db))) = Some TypeError"
    by (rule print_items_error)
  have early: "f = Connect_fails \<or> f = Execute_fails"
    if "raised r = Some ConnectError \<or> raised r = Some ExecuteError"
    using that pe unfolding assms raised_run by (auto split: if_splits)
  have late: "f \<noteq> Connect_fails \<and> f \<noteq> Execute_fails"
    if "raised r = Some FetchError \<or> raised r = Some TypeError"
    using that unfolding assms raised_run by (auto split: if_splits)
  have 1: "f = Connect_fails \<longrightarrow> raised r = Some ConnectError"
    and 2: "f = Execute_fails \<longrightarrow> raised r = Some ExecuteError"
    and 3: "f = Fetch_fails \<longrightarrow> raised r = Some FetchError"
    by (simp_all add: assms raised_run)
  have 4: "raised r = Some ConnectError \<or> raised r = Some ExecuteError \<longrightarrow>
            db_after r = db \<and> printed r = []"
    using early by (auto simp: assms db_after_run printed_run_early)
  have 5: "raised r = Some FetchError \<or> raised r = Some TypeError \<longrightarrow>
            db_after r = execute_update db"
    using late by (auto simp: assms db_after_run)
  have 6: "distinct (db_calls r)"
    by (simp add: assms db_calls_run)
  from 1 2 3 4 5 6 show ?thesis by blast
qed

theorem failed_run_before_write_keeps_scores_witness:
  "raised (update_popularity_scores Execute_fails scenario_X) = Some ExecuteError \<and>
   db_after (update_popularity_scores Execute_fails scenario_X) = scenario_X \<and>
   db_calls (update_popularity_scores Execute_fails scenario_X) = [Connect, Execute, Close]"
proof -
  have c: "db_calls (update_popularity_scores Execute_fails scenario_X) = [Connect, Execute, Close]"
    by (simp add: update_popularity_scores_def)
  from failed_run_before_write_keeps_scores [OF refl, of Execute_fails scenario_X] c show ?thesis by simp
qed

text \<open>
  Claim C6: the recompute is idempotent. After a run that has reached its UPDATE, a second
  run on the same interactions leaves the table as the first run left it, whether the
  second run fails or not, so every item has the score it had after the first run.
\<close>

theorem recompute_idempotent:
  assumes "f1 \<noteq> Connect_fails" and "f1 \<noteq> Execute_fails"
  shows "db_after (update_popularity_scores f2 (db_after (update_popularity_scores f1 db))) =
           db_after (update_popularity_scores f1 db) \<and>
         persisted_score
           (db_after (update_popularity_scores No_fault (db_after (update_popularity_scores No_fault db)))) i =
           persisted_score (db_after (update_popularity_scores No_fault db)) i \<and>
         interactions (db_after (update_popularity_scores f1 db)) = interactions db"
  using assms by (simp add: db_after_run execute_update_idem interactions_execute_update)

theorem recompute_idempotent_witness:
  "persisted_score
     (db_after (update_popularity_scores No_fault (db_after (update_popularity_scores No_fault scenario_X)))) 1 =
   Some (Some (8 / 100))"
proof -
  have a: "No_fault \<noteq> Connect_fails" and b: "No_fault \<noteq> Execute_fails" by simp_all
  have v: "persisted_score (db_after (update_popularity_scores No_fault scenario_X)) 1 =
             Some (Some (8 / 100))"
    by (simp add: run_eval scenario_X_def)
  from recompute_idempotent [OF a b, of No_fault scenario_X 1] v show ?thesis by simp
qed

text \<open>
  Claim C7: the normalization is monotone, \<open>r1 \<le> r2\<close> gives
  \<open>normalized r1 \<le> normalized r2\<close>, and its value never exceeds 1.0.
\<close>

theorem normalized_monotone_clamped:
  assumes "r1 \<le> r2"
  shows "normalized (Some r1) \<le> normalized (Some r2) \<and> normalized (Some r2) \<le> 1 \<and>
         normalized (Some r1) = min (r1 / 100) 1"
  using assms by (simp add: normalized_Some min_le_iff_disj divide_right_mono)

theorem normalized_monotone_clamped_witness:
  "(8::rat) \<le> 250 \<and> normalized (Some 8) \<le> normalized (Some 250) \<and> normalized (Some 250) \<le> 1"
proof -
  have h: "(8::rat) \<le> 250" by simp
  from normalized_monotone_clamped [OF h] h show ?thesis by simp
qed

section \<open>The report\<close>



section \<open>Configuration\<close>






end
